theory Spec2Isabelle
  imports Complex_Main
begin

section \<open>Python values, exceptions and the built-ins the modules call\<close>

text \<open>
  The modules pass around what \<^verbatim>\<open>json.loads\<close> and \<^verbatim>\<open>response.json()\<close> produce: dictionaries,
  lists, strings, numbers, booleans and \<^verbatim>\<open>None\<close>. A dictionary is an association list
  in the insertion order of the Python dict, looked up with \<open>map_of\<close> (a Python dict has
  no key twice); a float is an idealised real.
\<close>

datatype pyval =
    PNone
  | PBool bool
  | PInt int
  | PFloat real
  | PStr string
  | PList "pyval list"
  | PDict "(string \<times> pyval) list"

text \<open>
  The exceptions that can travel through the modules, by class. The first six are
  \<^verbatim>\<open>requests.exceptions.RequestException\<close> and its subclasses (the sixth stands for any
  of them not named here); the others are not request exceptions (the last stands for any
  other subclass of \<^verbatim>\<open>Exception\<close>, by its name). All of them derive from \<^verbatim>\<open>Exception\<close>,
  so an \<^verbatim>\<open>except Exception\<close> clause catches every value of this type. Interrupts of the
  interpreter (\<^verbatim>\<open>KeyboardInterrupt\<close>, \<^verbatim>\<open>SystemExit\<close>) are not modelled.
\<close>

datatype py_exc =
    ConnectionError
  | Timeout
  | HTTPError int
  | RetryError
  | RequestsJSONDecodeError
  | OtherRequestException string
  | TemplateNotFound
  | TemplateError
  | JSONDecodeError
  | AttributeError
  | TypeError
  | ValueError
  | OtherException string

fun is_RequestException :: "py_exc \<Rightarrow> bool" where
  "is_RequestException ConnectionError = True"
| "is_RequestException Timeout = True"
| "is_RequestException (HTTPError _) = True"
| "is_RequestException RetryError = True"
| "is_RequestException RequestsJSONDecodeError = True"
| "is_RequestException (OtherRequestException _) = True"
| "is_RequestException _ = False"

text \<open>
  Three things are done by built-ins defined outside the repository: the text of a number
  or a container under \<^verbatim>\<open>str()\<close>, the exception, if any, that \<^verbatim>\<open>str()\<close> raises on a float
  or a container (such as \<^verbatim>\<open>RecursionError\<close> on a deep nesting, or \<^verbatim>\<open>ValueError\<close> for an
  element over the digit limit), and the parser \<^verbatim>\<open>json.loads\<close>. They are taken as
  parameters, so every result below holds for whatever they compute.
\<close>

record python =
  repr :: "pyval \<Rightarrow> string"
  str_error :: "pyval \<Rightarrow> py_exc option"
  json_loads :: "string \<Rightarrow> py_exc + pyval"

text \<open>The text \<^verbatim>\<open>str(v)\<close> has when the conversion succeeds.\<close>

definition py_str :: "python \<Rightarrow> pyval \<Rightarrow> string" where
  "py_str py v =
     (case v of
        PStr s \<Rightarrow> s
      | PNone \<Rightarrow> ''None''
      | PBool b \<Rightarrow> (if b then ''True'' else ''False'')
      | _ \<Rightarrow> repr py v)"

text \<open>
  \<^verbatim>\<open>str(v)\<close> as an f-string field \<^verbatim>\<open>{v}\<close> evaluates it, with its failures: the conversion
  of an integer of more than 4300 decimal digits raises \<^verbatim>\<open>ValueError\<close> (the interpreter's
  default \<^verbatim>\<open>int_max_str_digits\<close>), and a float or a container raises what \<^verbatim>\<open>str_error\<close>
  says. Strings, \<^verbatim>\<open>None\<close>, booleans and shorter integers always convert.
\<close>

definition int_max_str_digits :: nat where
  "int_max_str_digits = 4300"

definition py_format :: "python \<Rightarrow> pyval \<Rightarrow> py_exc + string" where
  "py_format py v =
     (case v of
        PStr s \<Rightarrow> Inr s
      | PNone \<Rightarrow> Inr ''None''
      | PBool b \<Rightarrow> Inr (if b then ''True'' else ''False'')
      | PInt n \<Rightarrow>
          (if 10 ^ int_max_str_digits \<le> \<bar>n\<bar> then Inl ValueError else Inr (repr py v))
      | _ \<Rightarrow> (case str_error py v of Some e \<Rightarrow> Inl e | None \<Rightarrow> Inr (repr py v)))"


text \<open>\<^verbatim>\<open>d.get(key, default)\<close> on a dictionary.\<close>

definition dict_get :: "(string \<times> pyval) list \<Rightarrow> string \<Rightarrow> pyval \<Rightarrow> pyval" where
  "dict_get d key dflt = (case map_of d key of Some v \<Rightarrow> v | None \<Rightarrow> dflt)"

text \<open>
  \<^verbatim>\<open>v.get(key, default)\<close> on any value: only a dictionary has the method, anything else
  raises \<^verbatim>\<open>AttributeError\<close>.
\<close>

definition py_get :: "pyval \<Rightarrow> string \<Rightarrow> pyval \<Rightarrow> py_exc + pyval" where
  "py_get v key dflt =
     (case v of PDict d \<Rightarrow> Inr (dict_get d key dflt) | _ \<Rightarrow> Inl AttributeError)"

text \<open>\<^verbatim>\<open>len(v)\<close>: defined on strings, lists and dictionaries, \<^verbatim>\<open>TypeError\<close> otherwise.\<close>

definition py_len :: "pyval \<Rightarrow> py_exc + nat" where
  "py_len v =
     (case v of
        PStr s \<Rightarrow> Inr (length s)
      | PList xs \<Rightarrow> Inr (length xs)
      | PDict kvs \<Rightarrow> Inr (length kvs)
      | _ \<Rightarrow> Inl TypeError)"

text \<open>
  The elements a \<^verbatim>\<open>for\<close> clause iterates over: the items of a list, the keys of a
  dictionary, the one-character strings of a string; other values are not iterable.
\<close>

definition py_iter :: "pyval \<Rightarrow> py_exc + pyval list" where
  "py_iter v =
     (case v of
        PList xs \<Rightarrow> Inr xs
      | PDict kvs \<Rightarrow> Inr (map (\<lambda>kv. PStr (fst kv)) kvs)
      | PStr s \<Rightarrow> Inr (map (\<lambda>c. PStr [c]) s)
      | _ \<Rightarrow> Inl TypeError)"

section \<open>modules/card.py\<close>

text \<open>
  The keyword arguments of \<^verbatim>\<open>template.render(...)\<close>. A Jinja template is whatever maps
  them to text or raises; the environment finds a template by name or raises
  \<^verbatim>\<open>TemplateNotFound\<close>. The template file itself is not part of the repository.
\<close>

record render_kwargs =
  task_id :: pyval
  task_name :: pyval
  status :: pyval
  description :: pyval
  due_date :: pyval
  assigned_to :: pyval
  priority :: pyval
  photos :: "pyval list"

type_synonym template = "render_kwargs \<Rightarrow> py_exc + string"

record AdaptiveCardGenerator =
  template_dir :: string
  env :: "string \<Rightarrow> py_exc + template"

text \<open>Lines 40-42: \<^verbatim>\<open>photos = []; if attachments: photos = attachments[:3]\<close>.\<close>

definition select_photos :: "pyval list option \<Rightarrow> pyval list" where
  "select_photos attachments =
     (case attachments of
        None \<Rightarrow> []
      | Some xs \<Rightarrow> (if xs \<noteq> [] then take 3 xs else []))"

text \<open>
  Lines 45-54: the arguments of the \<^verbatim>\<open>render\<close> call, evaluated before the call. Only
  \<^verbatim>\<open>task.get('assigned_to', {}).get('name', 'Unassigned')\<close> can raise, when the task's
  \<^verbatim>\<open>assigned_to\<close> is present and is not a dictionary.
\<close>

definition card_kwargs :: "(string \<times> pyval) list \<Rightarrow> pyval list option \<Rightarrow> py_exc + render_kwargs" where
  "card_kwargs task attachments =
     (case py_get (dict_get task ''assigned_to'' (PDict [])) ''name'' (PStr ''Unassigned'') of
        Inl e \<Rightarrow> Inl e
      | Inr assignee \<Rightarrow>
          Inr \<lparr> task_id = dict_get task ''id'' PNone,
                task_name = dict_get task ''title'' (PStr ''Untitled Task''),
                status = dict_get task ''status'' (PStr ''unknown''),
                description = dict_get task ''description'' (PStr ''''),
                due_date = dict_get task ''due_date'' (PStr ''''),
                assigned_to = assignee,
                priority = dict_get task ''priority'' (PStr ''normal''),
                photos = select_photos attachments \<rparr>)"

text \<open>
  \<^verbatim>\<open>_get_fallback_card\<close>, lines 65-96. The dictionary is built top down; the only
  expression in it that can raise on a dictionary is the f-string of line 87, when the
  status cannot be converted to text.
\<close>

definition get_fallback_card :: "python \<Rightarrow> (string \<times> pyval) list \<Rightarrow> py_exc + pyval" where
  "get_fallback_card py task =
     (case py_format py (dict_get task ''status'' (PStr ''unknown'')) of
        Inl e \<Rightarrow> Inl e
      | Inr status_text \<Rightarrow>
          Inr (PDict
            [(''$schema'', PStr ''http://adaptivecards.io/schemas/adaptive-card.json''),
             (''type'', PStr ''AdaptiveCard''),
             (''version'', PStr ''1.4''),
             (''body'', PList
                [PDict
                   [(''type'', PStr ''TextBlock''),
                    (''size'', PStr ''large''),
                    (''weight'', PStr ''bolder''),
                    (''text'', dict_get task ''title'' (PStr ''Task Update''))],
                 PDict
                   [(''type'', PStr ''TextBlock''),
                    (''text'', PStr (''Status: '' @ status_text)),
                    (''spacing'', PStr ''small'')],
                 PDict
                   [(''type'', PStr ''TextBlock''),
                    (''text'', dict_get task ''description'' (PStr ''No description'')),
                    (''spacing'', PStr ''small'')]])]))"

text \<open>
  \<^verbatim>\<open>generate_task_card\<close>, lines 36-63. The \<^verbatim>\<open>try\<close> block looks the template up, builds
  the arguments, renders, parses, and formats the task's \<^verbatim>\<open>id\<close> for the log line of line
  58; its value is the parsed document or the exception raised on the way.
\<close>

definition try_render ::
  "python \<Rightarrow> AdaptiveCardGenerator \<Rightarrow> (string \<times> pyval) list \<Rightarrow> pyval list option
     \<Rightarrow> py_exc + pyval" where
  "try_render py self task attachments =
     (case env self ''card.json.j2'' of
        Inl e \<Rightarrow> Inl e
      | Inr template \<Rightarrow>
          (case card_kwargs task attachments of
             Inl e \<Rightarrow> Inl e
           | Inr kwargs \<Rightarrow>
               (case template kwargs of
                  Inl e \<Rightarrow> Inl e
                | Inr card_json \<Rightarrow>
                    (case json_loads py card_json of
                       Inl e \<Rightarrow> Inl e
                     | Inr doc \<Rightarrow>
                         (case py_format py (dict_get task ''id'' PNone) of
                            Inl e \<Rightarrow> Inl e
                          | Inr logged \<Rightarrow> Inr doc)))))"

text \<open>
  \<^verbatim>\<open>except Exception\<close> turns every exception of the \<^verbatim>\<open>try\<close> block into a call of
  \<^verbatim>\<open>_get_fallback_card\<close>. That call stands in the handler, outside any \<^verbatim>\<open>try\<close>: what it
  raises leaves \<^verbatim>\<open>generate_task_card\<close>.
\<close>

definition generate_task_card ::
  "python \<Rightarrow> AdaptiveCardGenerator \<Rightarrow> (string \<times> pyval) list \<Rightarrow> pyval list option
     \<Rightarrow> py_exc + pyval" where
  "generate_task_card py self task attachments =
     (case try_render py self task attachments of
        Inl e \<Rightarrow> get_fallback_card py task
      | Inr doc \<Rightarrow> Inr doc)"

text \<open>
  Reading a card: the \<^verbatim>\<open>body\<close> blocks of a card document and the \<^verbatim>\<open>text\<close> of each
  block, in order (\<open>None\<close> where a block has no text).
\<close>

definition card_body :: "pyval \<Rightarrow> pyval list" where
  "card_body doc =
     (case doc of
        PDict d \<Rightarrow> (case map_of d ''body'' of Some (PList blocks) \<Rightarrow> blocks | _ \<Rightarrow> [])
      | _ \<Rightarrow> [])"

definition block_text :: "pyval \<Rightarrow> pyval option" where
  "block_text block = (case block of PDict d \<Rightarrow> map_of d ''text'' | _ \<Rightarrow> None)"

definition card_texts :: "pyval \<Rightarrow> pyval option list" where
  "card_texts doc = map block_text (card_body doc)"

section \<open>The clock, the network and the objects shared by reference\<close>

text \<open>
  \<^verbatim>\<open>FieldwireAuth\<close> (modules/auth.py, lines 16-28). The token and its expiry are whatever
  the token endpoint's JSON holds under these keys, \<^verbatim>\<open>None\<close> before the first exchange.
\<close>

record FieldwireAuth =
  api_token :: string
  region :: string
  auth_base_url :: string
  access_token :: pyval
  expires_at :: pyval

datatype http_method = GET | POST | HEAD

text \<open>
  A query parameter is a boolean or a time; the time stands for its ISO-8601 text, which
  \<^verbatim>\<open>isoformat()\<close> computes outside the repository.
\<close>

datatype param = ParamBool bool | ParamTime real

record request =
  req_method :: http_method
  req_url :: string
  req_headers :: "(string \<times> string) list"
  req_params :: "(string \<times> param) list"
  req_json :: "pyval option"
  req_timeout :: "int option"

text \<open>
  What the modules read of a response: the status code, the result of \<^verbatim>\<open>response.json()\<close>
  (a value, or the exception the call raises), the body text and the final URL (the one
  reached after the redirects that \<^verbatim>\<open>requests\<close> follows on its own).
\<close>

record response =
  status_code :: int
  resp_json :: "py_exc + pyval"
  resp_text :: string
  resp_url :: string

text \<open>
  A request made through \<^verbatim>\<open>requests\<close> (after the transport's own retries) ends with a
  response or with an exception, some time after it was issued.
\<close>

datatype outcome = Response response | Raises py_exc

datatype reply = Reply real outcome

type_synonym exchange = "real \<times> request \<times> outcome"

text \<open>
  The world a call runs in: the wall clock in seconds, the time by which \<^verbatim>\<open>time.sleep\<close>
  oversleeps, the remote side (it answers a request knowing every earlier exchange), the
  exchanges made so far, oldest first, each with the time it was issued at, and the
  \<^verbatim>\<open>FieldwireAuth\<close> objects by reference. Clock readings are idealised reals.
\<close>

record world =
  clock :: real
  jitter :: real
  server :: "exchange list \<Rightarrow> request \<Rightarrow> reply"
  history :: "exchange list"
  auths :: "nat \<Rightarrow> FieldwireAuth"

definition http_send :: "request \<Rightarrow> world \<Rightarrow> outcome \<times> world" where
  "http_send rq w =
     (case server w (history w) rq of
        Reply latency out \<Rightarrow>
          (out, w\<lparr> clock := clock w + latency, history := history w @ [(clock w, rq, out)] \<rparr>))"

definition sleep :: "real \<Rightarrow> world \<Rightarrow> world" where
  "sleep d w = w\<lparr> clock := clock w + d + jitter w \<rparr>"

text \<open>How the remote side ends a request issued in world \<open>w\<close>.\<close>

definition outcome_of :: "world \<Rightarrow> request \<Rightarrow> outcome" where
  "outcome_of w rq = (case server w (history w) rq of Reply latency out \<Rightarrow> out)"

definition latency_of :: "world \<Rightarrow> request \<Rightarrow> real" where
  "latency_of w rq = (case server w (history w) rq of Reply latency out \<Rightarrow> latency)"

text \<open>\<^verbatim>\<open>response.raise_for_status()\<close>: \<^verbatim>\<open>HTTPError\<close> for a 4xx or 5xx status.\<close>

definition raise_for_status :: "response \<Rightarrow> py_exc + unit" where
  "raise_for_status resp =
     (if 400 \<le> status_code resp \<and> status_code resp < 600
      then Inl (HTTPError (status_code resp)) else Inr ())"

section \<open>modules/send.py\<close>

record TeamsWebhookSender =
  webhook_url :: string
  rate_limit :: real
  last_send_time :: real

text \<open>\<^verbatim>\<open>__init__\<close>, lines 15-25; \<^verbatim>\<open>rate_limit\<close> defaults to 0.25.\<close>

definition TeamsWebhookSender_init :: "string \<Rightarrow> real option \<Rightarrow> TeamsWebhookSender" where
  "TeamsWebhookSender_init url rl =
     \<lparr> webhook_url = url,
       rate_limit = (case rl of None \<Rightarrow> 25 / 100 | Some r \<Rightarrow> r),
       last_send_time = 0 \<rparr>"

text \<open>The envelope of lines 55-64.\<close>

definition card_payload :: "pyval \<Rightarrow> pyval" where
  "card_payload c =
     PDict
       [(''type'', PStr ''message''),
        (''attachments'', PList
           [PDict
              [(''contentType'', PStr ''application/vnd.microsoft.card.adaptive''),
               (''contentUrl'', PNone),
               (''content'', c)]])]"

definition post_request :: "string \<Rightarrow> pyval \<Rightarrow> request" where
  "post_request u payload =
     \<lparr> req_method = POST, req_url = u, req_headers = [], req_params = [],
       req_json = Some payload, req_timeout = Some 10 \<rparr>"

text \<open>
  Lines 49-52, \<^verbatim>\<open># Enforce rate limiting\<close>: the time since \<^verbatim>\<open>last_send_time\<close> is read
  off the clock, and the call sleeps for what is missing to \<^verbatim>\<open>rate_limit\<close>.
\<close>

definition enforce_rate_limit :: "TeamsWebhookSender \<Rightarrow> world \<Rightarrow> world" where
  "enforce_rate_limit self w =
     (let elapsed = clock w - last_send_time self
      in if elapsed < rate_limit self then sleep (rate_limit self - elapsed) w else w)"

text \<open>
  \<^verbatim>\<open>send_card\<close>, lines 40-89. The result is the boolean returned, or the exception that
  leaves the method: \<^verbatim>\<open>except requests.exceptions.RequestException\<close> catches the request
  exceptions only. \<^verbatim>\<open>last_send_time\<close> is assigned after \<^verbatim>\<open>post\<close> has returned a response,
  so a \<^verbatim>\<open>post\<close> that raises leaves it as it was.
\<close>

definition send_card ::
  "TeamsWebhookSender \<Rightarrow> pyval \<Rightarrow> world \<Rightarrow> (py_exc + bool) \<times> TeamsWebhookSender \<times> world" where
  "send_card self c w =
     (case http_send (post_request (webhook_url self) (card_payload c)) (enforce_rate_limit self w) of
        (Raises e, w2) \<Rightarrow> ((if is_RequestException e then Inr False else Inl e), self, w2)
      | (Response resp, w2) \<Rightarrow>
          (let self' = self\<lparr> last_send_time := clock w2 \<rparr>
           in if status_code resp = 200 then (Inr True, self', w2)
              else if status_code resp = 429 then (Inr False, self', w2)
              else if status_code resp = 401 then (Inr False, self', w2)
              else (Inr False, self', w2)))"

text \<open>\<^verbatim>\<open>send_batch\<close>, lines 91-109: the \<^verbatim>\<open>results\<close> dictionary and the loop over the cards.\<close>

record batch_results =
  success :: int
  failed :: int

fun send_batch_loop ::
  "pyval list \<Rightarrow> batch_results \<Rightarrow> TeamsWebhookSender \<Rightarrow> world
     \<Rightarrow> (py_exc + batch_results) \<times> TeamsWebhookSender \<times> world" where
  "send_batch_loop [] results self w = (Inr results, self, w)"
| "send_batch_loop (c # cards) results self w =
     (case send_card self c w of
        (Inl e, self', w') \<Rightarrow> (Inl e, self', w')
      | (Inr sent, self', w') \<Rightarrow>
          send_batch_loop cards
            (if sent then results\<lparr> success := success results + 1 \<rparr>
             else results\<lparr> failed := failed results + 1 \<rparr>)
            self' w')"

definition send_batch ::
  "TeamsWebhookSender \<Rightarrow> pyval list \<Rightarrow> world
     \<Rightarrow> (py_exc + batch_results) \<times> TeamsWebhookSender \<times> world" where
  "send_batch self cards w = send_batch_loop cards \<lparr> success = 0, failed = 0 \<rparr> self w"

text \<open>\<^verbatim>\<open>test_webhook\<close>, lines 111-138: no pacing, and \<^verbatim>\<open>last_send_time\<close> is not touched.\<close>

definition test_payload :: pyval where
  "test_payload =
     PDict
       [(''type'', PStr ''message''),
        (''text'', PStr ''Fieldwire to Teams integration - Connection test'')]"

definition test_webhook :: "TeamsWebhookSender \<Rightarrow> world \<Rightarrow> (py_exc + bool) \<times> world" where
  "test_webhook self w =
     (case http_send (post_request (webhook_url self) test_payload) w of
        (Raises e, w1) \<Rightarrow> ((if is_RequestException e then Inr False else Inl e), w1)
      | (Response resp, w1) \<Rightarrow>
          (if status_code resp = 200 then (Inr True, w1) else (Inr False, w1)))"

section \<open>modules/auth.py\<close>

definition BASE_URLS :: "(string \<times> string) list" where
  "BASE_URLS =
     [(''us'', ''https://client-api.super.fieldwire.com''),
      (''eu'', ''https://client-api.fieldwire.eu'')]"

text \<open>\<^verbatim>\<open>str.lower()\<close> on the ASCII letters; other characters are kept.\<close>

definition py_lower :: "string \<Rightarrow> string" where
  "py_lower s =
     map (\<lambda>c. case map_of (zip ''ABCDEFGHIJKLMNOPQRSTUVWXYZ'' ''abcdefghijklmnopqrstuvwxyz'') c of
                 Some l \<Rightarrow> l
               | None \<Rightarrow> c) s"

text \<open>\<^verbatim>\<open>__init__\<close>, lines 16-28; \<^verbatim>\<open>region\<close> defaults to \<^verbatim>\<open>"us"\<close>.\<close>

definition FieldwireAuth_init :: "string \<Rightarrow> string option \<Rightarrow> FieldwireAuth" where
  "FieldwireAuth_init token reg =
     (let r = (case reg of None \<Rightarrow> ''us'' | Some x \<Rightarrow> x)
      in \<lparr> api_token = token,
           region = r,
           auth_base_url =
             (case map_of BASE_URLS (py_lower r) of
                Some u \<Rightarrow> u
              | None \<Rightarrow> ''https://client-api.super.fieldwire.com''),
           access_token = PNone,
           expires_at = PNone \<rparr>)"





section \<open>modules/fetch.py\<close>

text \<open>
  \<^verbatim>\<open>FieldwireFetch\<close>: a reference to the auth object, and the base URL and the header
  dictionary built from it by \<^verbatim>\<open>__init__\<close> (lines 15-26).
\<close>

record FieldwireFetch =
  auth :: nat
  fetch_base_url :: string
  headers :: "(string \<times> string) list"

definition FieldwireFetch_init :: "python \<Rightarrow> nat \<Rightarrow> world \<Rightarrow> FieldwireFetch" where
  "FieldwireFetch_init py r w =
     \<lparr> auth = r,
       fetch_base_url = ''https://api.'' @ region (auths w r) @ ''.fieldwire.io/api'',
       headers =
         [(''Authorization'', ''Bearer '' @ py_str py (access_token (auths w r))),
          (''Content-Type'', ''application/json'')] \<rparr>"

definition get_request :: "FieldwireFetch \<Rightarrow> string \<Rightarrow> (string \<times> param) list \<Rightarrow> request" where
  "get_request self u ps =
     \<lparr> req_method = GET, req_url = u, req_headers = headers self, req_params = ps,
       req_json = None, req_timeout = None \<rparr>"

text \<open>
  The handler shared by the three list operations:
  \<^verbatim>\<open>except requests.exceptions.RequestException: return []\<close>; other exceptions leave the
  method.
\<close>

definition except_return_empty :: "py_exc \<Rightarrow> py_exc + pyval" where
  "except_return_empty e = (if is_RequestException e then Inr (PList []) else Inl e)"

text \<open>
  \<^verbatim>\<open>response.raise_for_status()\<close>, then \<^verbatim>\<open>response.json().get(key, [])\<close>: the part of the
  \<^verbatim>\<open>try\<close> block the three list operations have in common.
\<close>

definition json_field :: "response \<Rightarrow> string \<Rightarrow> py_exc + pyval" where
  "json_field resp key =
     (case raise_for_status resp of
        Inl e \<Rightarrow> Inl e
      | Inr _ \<Rightarrow>
          (case resp_json resp of
             Inl e \<Rightarrow> Inl e
           | Inr body \<Rightarrow> py_get body key (PList [])))"

text \<open>
  Line 45, \<^verbatim>\<open>[p for p in projects if p.get('id') in project_ids]\<close>: membership in a list of
  strings is equality with one of them.
\<close>

fun keep_matching :: "pyval list \<Rightarrow> string list \<Rightarrow> py_exc + pyval list" where
  "keep_matching [] project_ids = Inr []"
| "keep_matching (p # ps) project_ids =
     (case py_get p ''id'' PNone of
        Inl e \<Rightarrow> Inl e
      | Inr v \<Rightarrow>
          (case keep_matching ps project_ids of
             Inl e \<Rightarrow> Inl e
           | Inr rest \<Rightarrow> Inr (if v \<in> set (map PStr project_ids) then p # rest else rest)))"

definition filter_projects :: "pyval \<Rightarrow> string list option \<Rightarrow> py_exc + pyval" where
  "filter_projects projects project_ids =
     (case project_ids of
        None \<Rightarrow> Inr projects
      | Some ids \<Rightarrow>
          (if ids \<noteq> [] \<and> ids \<noteq> [''ALL'']
           then (case py_iter projects of
                   Inl e \<Rightarrow> Inl e
                 | Inr ps \<Rightarrow>
                     (case keep_matching ps ids of Inl e \<Rightarrow> Inl e | Inr kept \<Rightarrow> Inr (PList kept)))
           else Inr projects))"

text \<open>
  The log line \<^verbatim>\<open>logger.info(f"Fetched {len(xs)} ...")\<close> evaluates \<^verbatim>\<open>len\<close>, which raises
  on a value without a length; then the value is returned.
\<close>

definition log_len_return :: "pyval \<Rightarrow> py_exc + pyval" where
  "log_len_return xs = (case py_len xs of Inl e \<Rightarrow> Inl e | Inr _ \<Rightarrow> Inr xs)"

definition try_except_empty :: "py_exc + pyval \<Rightarrow> py_exc + pyval" where
  "try_except_empty body = (case body of Inl e \<Rightarrow> except_return_empty e | Inr v \<Rightarrow> Inr v)"

text \<open>The request each operation builds in the first lines of its \<^verbatim>\<open>try\<close> block.\<close>

definition projects_request :: "FieldwireFetch \<Rightarrow> request" where
  "projects_request self = get_request self (fetch_base_url self @ ''/projects'') []"






text \<open>\<^verbatim>\<open>get_projects\<close>, lines 28-51.\<close>

definition get_projects ::
  "FieldwireFetch \<Rightarrow> string list option \<Rightarrow> world \<Rightarrow> (py_exc + pyval) \<times> world" where
  "get_projects self project_ids w =
     (case http_send (projects_request self) w of
        (Raises e, w1) \<Rightarrow> (except_return_empty e, w1)
      | (Response resp, w1) \<Rightarrow>
          (try_except_empty
             (case json_field resp ''projects'' of
                Inl e \<Rightarrow> Inl e
              | Inr projects \<Rightarrow>
                  (case filter_projects projects project_ids of
                     Inl e \<Rightarrow> Inl e
                   | Inr projects' \<Rightarrow> log_len_return projects')),
           w1))"




section \<open>Vocabulary of the properties\<close>

text \<open>A delivery counts as made when the webhook answered with status 200.\<close>

definition sent_ok :: "outcome \<Rightarrow> bool" where
  "sent_ok out = (case out of Response resp \<Rightarrow> status_code resp = 200 | Raises e \<Rightarrow> False)"

text \<open>The \<^verbatim>\<open>id\<close> of a project entry, \<^verbatim>\<open>None\<close> where it has none.\<close>

definition project_id_of :: "pyval \<Rightarrow> pyval" where
  "project_id_of p = (case p of PDict d \<Rightarrow> dict_get d ''id'' PNone | _ \<Rightarrow> PNone)"

definition is_dict :: "pyval \<Rightarrow> bool" where
  "is_dict v = (case v of PDict d \<Rightarrow> True | _ \<Rightarrow> False)"

text \<open>The world after a request has been issued and answered.\<close>

definition answered :: "request \<Rightarrow> world \<Rightarrow> world" where
  "answered rq w =
     w\<lparr> clock := clock w + latency_of w rq,
        history := history w @ [(clock w, rq, outcome_of w rq)] \<rparr>"


section \<open>Example objects\<close>

text \<open>
  Concrete stand-ins for the parts outside the repository, used to run the operations:
  a \<^verbatim>\<open>repr\<close> that prints a question mark, floats and containers that always convert, a
  parser that returns the rendered text as a string, a template that prints four of its
  arguments and one star per photo.
\<close>

definition example_python :: python where
  "example_python =
     \<lparr> repr = (\<lambda>v. ''?''), str_error = (\<lambda>v. None), json_loads = (\<lambda>s. Inr (PStr s)) \<rparr>"

definition example_template :: template where
  "example_template kw =
     Inr (concat (map (\<lambda>v. case v of PStr s \<Rightarrow> s @ ''|'' | _ \<Rightarrow> ''?|'')
                      [task_name kw, status kw, assigned_to kw, priority kw])
          @ replicate (length (photos kw)) (CHR ''*''))"

definition example_generator :: AdaptiveCardGenerator where
  "example_generator =
     \<lparr> template_dir = ''templates'',
       env = (\<lambda>name. if name = ''card.json.j2'' then Inr example_template else Inl TemplateNotFound) \<rparr>"

definition no_templates :: AdaptiveCardGenerator where
  "no_templates = \<lparr> template_dir = ''missing'', env = (\<lambda>name. Inl TemplateNotFound) \<rparr>"

definition example_attachments :: "pyval list" where
  "example_attachments =
     [PDict [(''id'', PStr ''a1'')], PDict [(''id'', PStr ''a2'')], PDict [(''id'', PStr ''a3'')],
      PDict [(''id'', PStr ''a4'')], PDict [(''id'', PStr ''a5'')]]"

definition json_response :: "int \<Rightarrow> pyval \<Rightarrow> response" where
  "json_response code body =
     \<lparr> status_code = code, resp_json = Inr body, resp_text = [], resp_url = [] \<rparr>"

text \<open>A remote side that ends every request the same way, after the same time.\<close>

definition constant_server :: "real \<Rightarrow> outcome \<Rightarrow> exchange list \<Rightarrow> request \<Rightarrow> reply" where
  "constant_server latency out h rq = Reply latency out"

text \<open>A webhook that answers the second request it sees with 429 and the others with 200.\<close>

definition throttling_server :: "exchange list \<Rightarrow> request \<Rightarrow> reply" where
  "throttling_server h rq =
     (if length h = 1 then Reply (1 / 10) (Response (json_response 429 PNone))
      else Reply (1 / 10) (Response (json_response 200 (PInt 1))))"

definition example_projects :: "pyval list" where
  "example_projects =
     [PDict [(''id'', PStr ''p1''), (''name'', PStr ''Tower'')],
      PDict [(''id'', PStr ''p2''), (''name'', PStr ''Bridge'')],
      PDict [(''id'', PStr ''p3''), (''name'', PStr ''Tunnel'')]]"

text \<open>A Fieldwire API that knows three projects, one task and five attachments.\<close>

definition api_server :: "exchange list \<Rightarrow> request \<Rightarrow> reply" where
  "api_server h rq =
     (if req_url rq = ''https://client-api.super.fieldwire.com/api_keys/jwt''
      then Reply (1 / 5) (Response (json_response 201
             (PDict [(''access_token'', PStr ''jwt-1''), (''expires_at'', PInt 2000)])))
      else if req_url rq = ''https://api.us.fieldwire.io/api/projects''
      then Reply (1 / 5) (Response (json_response 200 (PDict [(''projects'', PList example_projects)])))
      else if req_url rq = ''https://api.us.fieldwire.io/api/projects/p1/tasks''
      then Reply (1 / 5) (Response (json_response 200
             (PDict [(''tasks'', PList [PDict [(''id'', PStr ''t1'')]])])))
      else if req_url rq = ''https://api.us.fieldwire.io/api/projects/p1/tasks/t1/attachments''
      then Reply (1 / 5) (Response (json_response 200
             (PDict [(''attachments'', PList example_attachments)])))
      else Reply (1 / 5) (Response (json_response 404 PNone)))"

definition world_with :: "(exchange list \<Rightarrow> request \<Rightarrow> reply) \<Rightarrow> world" where
  "world_with srv =
     \<lparr> clock = 1000, jitter = 0, server = srv, history = [],
       auths = (\<lambda>r. FieldwireAuth_init ''secret'' None) \<rparr>"


definition example_sender :: TeamsWebhookSender where
  "example_sender = TeamsWebhookSender_init ''https://teams.example/hook'' None"

definition example_cards :: "pyval list" where
  "example_cards = [PDict [(''n'', PInt 1)], PDict [(''n'', PInt 2)], PDict [(''n'', PInt 3)]]"

definition example_fetch :: FieldwireFetch where
  "example_fetch = FieldwireFetch_init example_python 0 (world_with api_server)"

section \<open>Properties of modules/card.py\<close>

lemma fallback_card_texts:
  assumes "py_format py (dict_get task ''status'' (PStr ''unknown'')) = Inr s"
  shows "\<exists>doc. get_fallback_card py task = Inr doc
             \<and> card_texts doc =
                 [Some (dict_get task ''title'' (PStr ''Task Update'')),
                  Some (PStr (''Status: '' @ s)),
                  Some (dict_get task ''description'' (PStr ''No description''))]"
  using assms
  by (simp add: card_texts_def card_body_def block_text_def get_fallback_card_def)

lemma fallback_card_raises:
  "py_format py (dict_get task ''status'' (PStr ''unknown'')) = Inl e \<Longrightarrow>
     get_fallback_card py task = Inl e"
  by (simp add: get_fallback_card_def)


lemma generate_task_card_returns:
  assumes "py_format py (dict_get task ''status'' (PStr ''unknown'')) = Inr s"
  shows "\<exists>doc. generate_task_card py self task attachments = Inr doc"
proof (cases "try_render py self task attachments")
  case (Inl e)
  with fallback_card_texts[OF assms] show ?thesis
    by (auto simp: generate_task_card_def)
next
  case (Inr doc)
  then show ?thesis
    by (simp add: generate_task_card_def)
qed





lemma example_env: "env example_generator ''card.json.j2'' = Inr example_template"
  by (simp add: example_generator_def)

lemma example_format: "py_format example_python (PStr s) = Inr s"
  "py_format example_python PNone = Inr ''None''"
  by (simp_all add: py_format_def)

text \<open>
  Two runs on an integer of 4301 digits. As the status of a task whose rendering fails,
  it makes the fallback card, and with it \<^verbatim>\<open>generate_task_card\<close>, raise. As the \<^verbatim>\<open>id\<close> of
  a task that renders, it makes the log line of the \<^verbatim>\<open>try\<close> block raise, and the fallback
  card is returned in place of the rendered document.
\<close>

lemma over_digit_limit: "py_format py (PInt (10 ^ int_max_str_digits)) = Inl ValueError"
  by (simp add: py_format_def)

lemma fallback_raises_over_digit_limit:
  "generate_task_card example_python no_templates [(''status'', PInt (10 ^ int_max_str_digits))] None
     = Inl ValueError"
  by (simp add: generate_task_card_def try_render_def no_templates_def get_fallback_card_def
        dict_get_def over_digit_limit)

lemma log_line_failure_gives_fallback:
  "try_render example_python example_generator [(''id'', PInt (10 ^ int_max_str_digits))] None = Inl ValueError"
  "generate_task_card example_python example_generator [(''id'', PInt (10 ^ int_max_str_digits))] None
     = get_fallback_card example_python [(''id'', PInt (10 ^ int_max_str_digits))]"
  by (simp_all add: generate_task_card_def try_render_def example_env card_kwargs_def
        dict_get_def py_get_def example_template_def example_python_def over_digit_limit)

text \<open>
  Claim C1, as amended. For every task dictionary whose status (or the default
  \<^verbatim>\<open>unknown\<close>, when it has none) can be converted to text, and every attachment list,
  \<^verbatim>\<open>generate_task_card\<close> returns a document and raises nothing; a missing status and a
  string status can always be converted. Whenever the \<^verbatim>\<open>try\<close> block fails, for whatever
  reason, the result is that of \<^verbatim>\<open>_get_fallback_card\<close>: the fallback card, whose body is
  three text blocks, the title, the status line and the description. The status line
  starts with \<^verbatim>\<open>Status: \<close> and is never empty. The title text is the task's \<^verbatim>\<open>title\<close> as it
  is when the key is present, and \<^verbatim>\<open>Task Update\<close> when it is absent: it is non-empty for
  an absent title and for a non-empty title string, not for every task.
\<close>

theorem fallback_card_on_failure:
  "(\<forall>s. py_format py (dict_get task ''status'' (PStr ''unknown'')) = Inr s \<longrightarrow>
      (\<exists>doc. generate_task_card py self task attachments = Inr doc))
 \<and> (\<forall>e. try_render py self task attachments = Inl e \<longrightarrow>
      generate_task_card py self task attachments = get_fallback_card py task)
 \<and> (\<forall>s. py_format py (dict_get task ''status'' (PStr ''unknown'')) = Inr s \<longrightarrow>
      (\<exists>doc. get_fallback_card py task = Inr doc
          \<and> card_texts doc =
              [Some (dict_get task ''title'' (PStr ''Task Update'')),
               Some (PStr (''Status: '' @ s)),
               Some (dict_get task ''description'' (PStr ''No description''))]
          \<and> ''Status: '' @ s \<noteq> []
          \<and> (map_of task ''title'' = None \<longrightarrow> card_texts doc ! 0 = Some (PStr ''Task Update''))
          \<and> (\<forall>v. map_of task ''title'' = Some v \<longrightarrow> card_texts doc ! 0 = Some v)))
 \<and> (map_of task ''status'' = None \<longrightarrow>
      py_format py (dict_get task ''status'' (PStr ''unknown'')) = Inr ''unknown'')
 \<and> (\<forall>s. map_of task ''status'' = Some (PStr s) \<longrightarrow>
      py_format py (dict_get task ''status'' (PStr ''unknown'')) = Inr s)"
proof (intro conjI allI impI)
  fix s
  assume f: "py_format py (dict_get task ''status'' (PStr ''unknown'')) = Inr s"
  from f show "\<exists>doc. generate_task_card py self task attachments = Inr doc"
    by (rule generate_task_card_returns)
  from fallback_card_texts[OF f] obtain doc where
    d: "get_fallback_card py task = Inr doc"
       "card_texts doc =
          [Some (dict_get task ''title'' (PStr ''Task Update'')),
           Some (PStr (''Status: '' @ s)),
           Some (dict_get task ''description'' (PStr ''No description''))]"
    by (elim exE conjE)
  have absent: "map_of task ''title'' = None \<longrightarrow> card_texts doc ! 0 = Some (PStr ''Task Update'')"
    using d(2) by (simp add: dict_get_def)
  have present: "\<forall>v. map_of task ''title'' = Some v \<longrightarrow> card_texts doc ! 0 = Some v"
    using d(2) by (simp add: dict_get_def)
  from d absent present
  show "\<exists>doc. get_fallback_card py task = Inr doc
          \<and> card_texts doc =
              [Some (dict_get task ''title'' (PStr ''Task Update'')),
               Some (PStr (''Status: '' @ s)),
               Some (dict_get task ''description'' (PStr ''No description''))]
          \<and> ''Status: '' @ s \<noteq> []
          \<and> (map_of task ''title'' = None \<longrightarrow> card_texts doc ! 0 = Some (PStr ''Task Update''))
          \<and> (\<forall>v. map_of task ''title'' = Some v \<longrightarrow> card_texts doc ! 0 = Some v)"
    by auto
next
  fix e
  assume "try_render py self task attachments = Inl e"
  then show "generate_task_card py self task attachments = get_fallback_card py task"
    by (simp add: generate_task_card_def)
next
  assume "map_of task ''status'' = None"
  then show "py_format py (dict_get task ''status'' (PStr ''unknown'')) = Inr ''unknown''"
    by (simp add: dict_get_def py_format_def)
next
  fix s
  assume "map_of task ''status'' = Some (PStr s)"
  then show "py_format py (dict_get task ''status'' (PStr ''unknown'')) = Inr s"
    by (simp add: dict_get_def py_format_def)
qed

text \<open>
  A run of C1's theorem: no template is found, the task has a status and no title.
\<close>

theorem fallback_card_on_failure_witness:
  "try_render example_python no_templates [(''status'', PStr ''open'')] None = Inl TemplateNotFound
 \<and> map_sum id card_texts
       (generate_task_card example_python no_templates [(''status'', PStr ''open'')] None)
     = Inr [Some (PStr ''Task Update''), Some (PStr ''Status: open''), Some (PStr ''No description'')]"
proof -
  have f: "try_render example_python no_templates [(''status'', PStr ''open'')] None
             = Inl TemplateNotFound"
    by (simp add: try_render_def no_templates_def)
  have s: "map_of [(''status'', PStr ''open'')] ''status'' = Some (PStr ''open'')"
    by simp
  note t = fallback_card_on_failure[of example_python "[(''status'', PStr ''open'')]"
             no_templates None]
  note formats = t[THEN conjunct2, THEN conjunct2, THEN conjunct2, THEN conjunct2, rule_format]
  note falls_back = t[THEN conjunct2, THEN conjunct1, rule_format]
  note texts = t[THEN conjunct2, THEN conjunct2, THEN conjunct1, rule_format]
  have p: "py_format example_python
             (dict_get [(''status'', PStr ''open'')] ''status'' (PStr ''unknown'')) = Inr ''open''"
    using s by (rule formats)
  have g: "generate_task_card example_python no_templates [(''status'', PStr ''open'')] None
             = get_fallback_card example_python [(''status'', PStr ''open'')]"
    using f by (rule falls_back)
  from texts[OF p] obtain doc where
    d: "get_fallback_card example_python [(''status'', PStr ''open'')] = Inr doc"
       "card_texts doc =
          [Some (dict_get [(''status'', PStr ''open'')] ''title'' (PStr ''Task Update'')),
           Some (PStr (''Status: '' @ ''open'')),
           Some (dict_get [(''status'', PStr ''open'')] ''description'' (PStr ''No description''))]"
    by (elim exE conjE)
  from f g d show ?thesis
    by (simp add: dict_get_def)
qed

text \<open>
  Against C1 as stated: a task whose title is the empty string, rendered without a
  template, gets a fallback card whose title text is empty; and a task whose status is
  an integer of 4301 digits, rendered without a template, gets no document: the
  \<^verbatim>\<open>ValueError\<close> of the status line leaves \<^verbatim>\<open>generate_task_card\<close>.
\<close>

theorem fallback_title_empty:
  "try_render example_python no_templates [(''title'', PStr [])] None = Inl TemplateNotFound
 \<and> map_sum id card_texts
       (generate_task_card example_python no_templates [(''title'', PStr [])] None)
     = Inr [Some (PStr []), Some (PStr ''Status: unknown''), Some (PStr ''No description'')]
 \<and> generate_task_card example_python no_templates
       [(''status'', PInt (10 ^ int_max_str_digits))] None = Inl ValueError"
  by (simp add: generate_task_card_def try_render_def no_templates_def get_fallback_card_def
        dict_get_def py_format_def card_texts_def card_body_def block_text_def)







section \<open>Properties of modules/send.py\<close>

lemma http_send_answered: "http_send rq w = (outcome_of w rq, answered rq w)"
  by (simp add: http_send_def outcome_of_def latency_of_def answered_def split: reply.splits)

lemma answered_fields [simp]:
  "history (answered rq w) = history w @ [(clock w, rq, outcome_of w rq)]"
  "auths (answered rq w) = auths w"
  "server (answered rq w) = server w"
  "jitter (answered rq w) = jitter w"
  "clock (answered rq w) = clock w + latency_of w rq"
  by (simp_all add: answered_def)

lemma enforce_rate_limit_fields [simp]:
  "server (enforce_rate_limit self w) = server w"
  "history (enforce_rate_limit self w) = history w"
  "jitter (enforce_rate_limit self w) = jitter w"
  "auths (enforce_rate_limit self w) = auths w"
  by (simp_all add: enforce_rate_limit_def sleep_def Let_def)

lemma outcome_of_enforce [simp]:
  "outcome_of (enforce_rate_limit self w) rq = outcome_of w rq"
  "latency_of (enforce_rate_limit self w) rq = latency_of w rq"
  by (simp_all add: outcome_of_def latency_of_def)

lemma enforce_rate_limit_clock:
  "0 \<le> jitter w \<Longrightarrow> last_send_time self + rate_limit self \<le> clock (enforce_rate_limit self w)"
  by (simp add: enforce_rate_limit_def sleep_def Let_def)

text \<open>\<^verbatim>\<open>send_card\<close> in one equation: pace, post, and read the outcome.\<close>

lemma send_card_eq:
  "send_card self c w =
     (let rq = post_request (webhook_url self) (card_payload c);
          w2 = answered rq (enforce_rate_limit self w)
      in case outcome_of w rq of
           Raises e \<Rightarrow> ((if is_RequestException e then Inr False else Inl e), self, w2)
         | Response resp \<Rightarrow>
             (Inr (status_code resp = 200), self\<lparr> last_send_time := clock w2 \<rparr>, w2))"
  by (simp add: send_card_def http_send_answered Let_def split: outcome.splits)

lemma test_webhook_eq:
  "test_webhook self w =
     (let rq = post_request (webhook_url self) test_payload
      in (case outcome_of w rq of
            Raises e \<Rightarrow> (if is_RequestException e then Inr False else Inl e)
          | Response resp \<Rightarrow> Inr (status_code resp = 200),
          answered rq w))"
  by (simp add: test_webhook_def http_send_answered Let_def split: outcome.splits)

lemma send_card_step:
  assumes "send_card self c w = (res, self', w')"
  shows "history w' = history w @
           [(clock (enforce_rate_limit self w), post_request (webhook_url self) (card_payload c),
             outcome_of w (post_request (webhook_url self) (card_payload c)))]"
    and "server w' = server w"
    and "webhook_url self' = webhook_url self"
    and "res = Inr b \<Longrightarrow> b = sent_ok (outcome_of w (post_request (webhook_url self) (card_payload c)))"
  using assms
  by (auto simp: send_card_eq Let_def sent_ok_def split: outcome.splits if_splits)

lemma send_batch_loop_tally:
  "send_batch_loop cards res0 self w = (Inr res, self', w') \<Longrightarrow>
     \<exists>xs. history w' = history w @ xs
        \<and> map (\<lambda>x. fst (snd x)) xs = map (\<lambda>c. post_request (webhook_url self) (card_payload c)) cards
        \<and> success res = success res0 + int (length (filter (\<lambda>x. sent_ok (snd (snd x))) xs))
        \<and> failed res = failed res0 + int (length (filter (\<lambda>x. \<not> sent_ok (snd (snd x))) xs))"
proof (induction cards arbitrary: res0 self w)
  case Nil
  then show ?case by simp
next
  case (Cons c cards)
  obtain r1 s1 w1 where sc: "send_card self c w = (r1, s1, w1)"
    by (cases "send_card self c w") auto
  with Cons.prems obtain b where b: "r1 = Inr b"
    by (cases r1) auto
  let ?rq = "post_request (webhook_url self) (card_payload c)"
  let ?x = "(clock (enforce_rate_limit self w), ?rq, outcome_of w ?rq)"
  let ?res1 = "if b then res0\<lparr> success := success res0 + 1 \<rparr>
               else res0\<lparr> failed := failed res0 + 1 \<rparr>"
  have h1: "history w1 = history w @ [?x]" and u1: "webhook_url s1 = webhook_url self"
    and bb: "b = sent_ok (outcome_of w ?rq)"
    using send_card_step[OF sc] b by auto
  from Cons.prems sc b have "send_batch_loop cards ?res1 s1 w1 = (Inr res, self', w')"
    by simp
  from Cons.IH[OF this] obtain xs where
    xs: "history w' = history w1 @ xs"
        "map (\<lambda>x. fst (snd x)) xs = map (\<lambda>c. post_request (webhook_url s1) (card_payload c)) cards"
        "success res = success ?res1 + int (length (filter (\<lambda>x. sent_ok (snd (snd x))) xs))"
        "failed res = failed ?res1 + int (length (filter (\<lambda>x. \<not> sent_ok (snd (snd x))) xs))"
    by blast
  show ?case
  proof (intro exI[of _ "?x # xs"] conjI)
    show "history w' = history w @ ?x # xs"
      using xs(1) h1 by simp
    show "map (\<lambda>x. fst (snd x)) (?x # xs) =
            map (\<lambda>c. post_request (webhook_url self) (card_payload c)) (c # cards)"
      using xs(2) u1 by simp
    show "success res = success res0 + int (length (filter (\<lambda>x. sent_ok (snd (snd x))) (?x # xs)))"
      using xs(3) bb by simp
    show "failed res = failed res0 + int (length (filter (\<lambda>x. \<not> sent_ok (snd (snd x))) (?x # xs)))"
      using xs(4) bb by simp
  qed
qed

lemma send_batch_loop_returns:
  "(\<And>h rq lat e. server w h rq = Reply lat (Raises e) \<Longrightarrow> is_RequestException e) \<Longrightarrow>
     \<exists>res self' w'. send_batch_loop cards res0 self w = (Inr res, self', w')"
proof (induction cards arbitrary: res0 self w)
  case Nil
  then show ?case by simp
next
  case (Cons c cards)
  obtain r1 s1 w1 where sc: "send_card self c w = (r1, s1, w1)"
    by (cases "send_card self c w") auto
  let ?rq = "post_request (webhook_url self) (card_payload c)"
  have "\<And>e. outcome_of w ?rq = Raises e \<Longrightarrow> is_RequestException e"
    using Cons.prems[of "history w" ?rq] by (auto simp: outcome_of_def split: reply.splits)
  with sc obtain b where b: "r1 = Inr b"
    by (auto simp: send_card_eq Let_def split: outcome.splits if_splits)
  have "server w1 = server w"
    using send_card_step(2)[OF sc] .
  with Cons.prems have "\<And>h rq lat e. server w1 h rq = Reply lat (Raises e) \<Longrightarrow> is_RequestException e"
    by simp
  from Cons.IH[OF this] sc b show ?case by simp
qed

text \<open>The example batch: three cards to the throttling webhook.\<close>

lemma example_batch_result:
  "fst (send_batch example_sender example_cards (world_with throttling_server))
     = Inr \<lparr> success = 2, failed = 1 \<rparr>"
  by (simp add: send_batch_def example_cards_def send_card_eq answered_def Let_def
        outcome_of_def latency_of_def world_with_def throttling_server_def example_sender_def
        TeamsWebhookSender_init_def enforce_rate_limit_def sleep_def json_response_def)

text \<open>
  Claim C4. A \<^verbatim>\<open>send_batch\<close> over N cards that returns has posted the N cards, each once
  and in the order of the list, whatever the earlier posts ended with, and its tally
  counts the posts answered with 200 as \<^verbatim>\<open>success\<close> and the others as \<^verbatim>\<open>failed\<close>, so that
  the two add up to N. It does return whenever the transport raises request exceptions
  only.
\<close>

theorem send_batch_tally:
  "(\<forall>res self' w'. send_batch self cards w = (Inr res, self', w') \<longrightarrow>
      (\<exists>xs. history w' = history w @ xs
          \<and> map (\<lambda>x. fst (snd x)) xs = map (\<lambda>c. post_request (webhook_url self) (card_payload c)) cards
          \<and> success res = int (length (filter (\<lambda>x. sent_ok (snd (snd x))) xs))
          \<and> failed res = int (length (filter (\<lambda>x. \<not> sent_ok (snd (snd x))) xs))
          \<and> success res + failed res = int (length cards)))
 \<and> ((\<forall>h rq lat e. server w h rq = Reply lat (Raises e) \<longrightarrow> is_RequestException e) \<longrightarrow>
      (\<exists>res self' w'. send_batch self cards w = (Inr res, self', w')))"
proof (intro conjI allI impI)
  fix res self' w'
  assume "send_batch self cards w = (Inr res, self', w')"
  then have "send_batch_loop cards \<lparr> success = 0, failed = 0 \<rparr> self w = (Inr res, self', w')"
    by (simp add: send_batch_def)
  from send_batch_loop_tally[OF this] obtain xs where
    xs: "history w' = history w @ xs"
        "map (\<lambda>x. fst (snd x)) xs = map (\<lambda>c. post_request (webhook_url self) (card_payload c)) cards"
        "success res = int (length (filter (\<lambda>x. sent_ok (snd (snd x))) xs))"
        "failed res = int (length (filter (\<lambda>x. \<not> sent_ok (snd (snd x))) xs))"
    by auto
  have "length xs = length cards"
    using xs(2) by (metis length_map)
  moreover have "length (filter (\<lambda>x. sent_ok (snd (snd x))) xs)
                   + length (filter (\<lambda>x. \<not> sent_ok (snd (snd x))) xs) = length xs"
    by (rule sum_length_filter_compl)
  ultimately have "success res + failed res = int (length cards)"
    using xs(3,4) by simp
  with xs show "\<exists>xs. history w' = history w @ xs
          \<and> map (\<lambda>x. fst (snd x)) xs = map (\<lambda>c. post_request (webhook_url self) (card_payload c)) cards
          \<and> success res = int (length (filter (\<lambda>x. sent_ok (snd (snd x))) xs))
          \<and> failed res = int (length (filter (\<lambda>x. \<not> sent_ok (snd (snd x))) xs))
          \<and> success res + failed res = int (length cards)"
    by blast
next
  assume "\<forall>h rq lat e. server w h rq = Reply lat (Raises e) \<longrightarrow> is_RequestException e"
  then have "\<And>h rq lat e. server w h rq = Reply lat (Raises e) \<Longrightarrow> is_RequestException e"
    by blast
  from send_batch_loop_returns[OF this]
  show "\<exists>res self' w'. send_batch self cards w = (Inr res, self', w')"
    by (simp add: send_batch_def)
qed

text \<open>
  A run of C4's theorem: of three cards the second is refused with 429; all three are
  posted and the tally is two sent, one failed.
\<close>

theorem send_batch_tally_witness:
  "fst (send_batch example_sender example_cards (world_with throttling_server))
     = Inr \<lparr> success = 2, failed = 1 \<rparr>
 \<and> map (\<lambda>x. fst (snd x))
       (history (snd (snd (send_batch example_sender example_cards (world_with throttling_server)))))
     = map (\<lambda>c. post_request ''https://teams.example/hook'' (card_payload c)) example_cards
 \<and> length (filter (\<lambda>x. sent_ok (snd (snd x)))
       (history (snd (snd (send_batch example_sender example_cards (world_with throttling_server))))))
     = 2"
proof -
  obtain s' w' where
    e: "send_batch example_sender example_cards (world_with throttling_server)
          = (Inr \<lparr> success = 2, failed = 1 \<rparr>, s', w')"
    using example_batch_result
    by (cases "send_batch example_sender example_cards (world_with throttling_server)") auto
  have u: "webhook_url example_sender = ''https://teams.example/hook''"
    and h: "history (world_with throttling_server) = []"
    by (simp_all add: example_sender_def TeamsWebhookSender_init_def world_with_def)
  from send_batch_tally[of example_sender example_cards "world_with throttling_server"] e
  obtain xs where
    "history w' = history (world_with throttling_server) @ xs"
    "map (\<lambda>x. fst (snd x)) xs =
       map (\<lambda>c. post_request (webhook_url example_sender) (card_payload c)) example_cards"
    "success \<lparr> success = 2, failed = 1 \<rparr> = int (length (filter (\<lambda>x. sent_ok (snd (snd x))) xs))"
    by blast
  with e u h show ?thesis
    by simp
qed

text \<open>
  Claim C5. \<^verbatim>\<open>send_card\<close> returns \<^verbatim>\<open>True\<close> exactly when the webhook answers its post with
  status 200; it returns \<^verbatim>\<open>False\<close> for every other status (429 and 401 among them) and
  for a request exception of the transport. \<^verbatim>\<open>test_webhook\<close> does the same with its probe.
\<close>

theorem true_only_on_200:
  "((fst (send_card self c w) = Inr True) =
      (\<exists>resp. outcome_of w (post_request (webhook_url self) (card_payload c)) = Response resp
             \<and> status_code resp = 200))
 \<and> (\<forall>resp. outcome_of w (post_request (webhook_url self) (card_payload c)) = Response resp
           \<and> status_code resp \<noteq> 200 \<longrightarrow> fst (send_card self c w) = Inr False)
 \<and> (\<forall>e. outcome_of w (post_request (webhook_url self) (card_payload c)) = Raises e
           \<and> is_RequestException e \<longrightarrow> fst (send_card self c w) = Inr False)
 \<and> ((fst (test_webhook self w) = Inr True) =
      (\<exists>resp. outcome_of w (post_request (webhook_url self) test_payload) = Response resp
             \<and> status_code resp = 200))
 \<and> (\<forall>resp. outcome_of w (post_request (webhook_url self) test_payload) = Response resp
           \<and> status_code resp \<noteq> 200 \<longrightarrow> fst (test_webhook self w) = Inr False)
 \<and> (\<forall>e. outcome_of w (post_request (webhook_url self) test_payload) = Raises e
           \<and> is_RequestException e \<longrightarrow> fst (test_webhook self w) = Inr False)"
proof -
  have sent: "fst (send_card self c w) =
      (case outcome_of w (post_request (webhook_url self) (card_payload c)) of
         Raises e \<Rightarrow> (if is_RequestException e then Inr False else Inl e)
       | Response resp \<Rightarrow> Inr (status_code resp = 200))"
    by (simp add: send_card_eq Let_def split: outcome.splits)
  have probed: "fst (test_webhook self w) =
      (case outcome_of w (post_request (webhook_url self) test_payload) of
         Raises e \<Rightarrow> (if is_RequestException e then Inr False else Inl e)
       | Response resp \<Rightarrow> Inr (status_code resp = 200))"
    by (simp add: test_webhook_eq Let_def)
  show ?thesis
    unfolding sent probed by (auto split: outcome.splits)
qed

text \<open>
  Runs of C5's theorem: a webhook that answers 200, one that answers 429, one that
  answers 401, one that answers 204, and a transport that times out.
\<close>

theorem true_only_on_200_witness:
  "fst (send_card example_sender PNone
         (world_with (constant_server 1 (Response (json_response 200 PNone))))) = Inr True
 \<and> fst (test_webhook example_sender
         (world_with (constant_server 1 (Response (json_response 200 PNone))))) = Inr True
 \<and> fst (send_card example_sender PNone
         (world_with (constant_server 1 (Response (json_response 429 PNone))))) = Inr False
 \<and> fst (send_card example_sender PNone
         (world_with (constant_server 1 (Response (json_response 401 PNone))))) = Inr False
 \<and> fst (test_webhook example_sender
         (world_with (constant_server 1 (Response (json_response 204 PNone))))) = Inr False
 \<and> fst (send_card example_sender PNone (world_with (constant_server 1 (Raises Timeout))))
     = Inr False
 \<and> fst (test_webhook example_sender (world_with (constant_server 1 (Raises Timeout))))
     = Inr False"
proof -
  have o: "outcome_of (world_with (constant_server 1 out)) rq = out" for out rq
    by (simp add: outcome_of_def world_with_def constant_server_def)
  have s: "status_code (json_response code body) = code" for code body
    by (simp add: json_response_def)
  note t = true_only_on_200[of example_sender PNone]
  from t[of "world_with (constant_server 1 (Response (json_response 200 PNone)))"]
       t[of "world_with (constant_server 1 (Response (json_response 429 PNone)))"]
       t[of "world_with (constant_server 1 (Response (json_response 401 PNone)))"]
       t[of "world_with (constant_server 1 (Response (json_response 204 PNone)))"]
       t[of "world_with (constant_server 1 (Raises Timeout))"]
  show ?thesis
    by (simp add: o s)
qed

text \<open>
  Claim C9, as amended. The pacing is between posts, not between call entries: a post is
  issued no earlier than \<^verbatim>\<open>rate_limit\<close> after \<^verbatim>\<open>last_send_time\<close>. When a call's post is
  answered with a response, \<^verbatim>\<open>last_send_time\<close> becomes the time the response arrived: the
  time of the post plus the time the answer took, which is the clock reading the call
  returns with. The post of the next call on the same sender, whenever that call is
  entered, is issued at least \<^verbatim>\<open>rate_limit\<close> after that recorded time: the two posts are at
  least \<^verbatim>\<open>rate_limit\<close> apart (0.25 seconds by default). This holds when \<^verbatim>\<open>time.sleep\<close>
  does not return early and the response does not arrive before the post.
\<close>

theorem posts_paced:
  assumes "send_card self c1 w = (r1, self1, w1)"
      and "outcome_of w (post_request (webhook_url self) (card_payload c1)) = Response resp"
      and "0 \<le> latency_of w (post_request (webhook_url self) (card_payload c1))"
      and "0 \<le> jitter w"
      and "send_card self1 c2 (w1\<lparr> clock := t \<rparr>) = (r2, self2, w2)"
  shows "(\<exists>p1 out1 p2 out2.
            history w2 = history w @ [(p1, post_request (webhook_url self) (card_payload c1), out1),
                                      (p2, post_request (webhook_url self) (card_payload c2), out2)]
          \<and> out1 = Response resp
          \<and> last_send_time self + rate_limit self \<le> p1
          \<and> last_send_time self1
                = p1 + latency_of w (post_request (webhook_url self) (card_payload c1))
          \<and> last_send_time self1 = clock w1
          \<and> p1 \<le> last_send_time self1
          \<and> last_send_time self1 + rate_limit self \<le> p2
          \<and> p1 + rate_limit self \<le> p2)
       \<and> rate_limit (TeamsWebhookSender_init url None) = 1 / 4"
proof -
  let ?rq1 = "post_request (webhook_url self) (card_payload c1)"
  let ?p1 = "clock (enforce_rate_limit self w)"
  have s1: "self1 = self\<lparr> last_send_time := ?p1 + latency_of w ?rq1 \<rparr>"
    and w1: "w1 = answered ?rq1 (enforce_rate_limit self w)"
    using assms(1,2) by (auto simp: send_card_eq Let_def)
  have j1: "jitter (w1\<lparr> clock := t \<rparr>) = jitter w"
    and h1: "history (w1\<lparr> clock := t \<rparr>) = history w @ [(?p1, ?rq1, outcome_of w ?rq1)]"
    using w1 by simp_all
  let ?p2 = "clock (enforce_rate_limit self1 (w1\<lparr> clock := t \<rparr>))"
  have h2: "history w2 = history (w1\<lparr> clock := t \<rparr>) @
              [(?p2, post_request (webhook_url self1) (card_payload c2),
                outcome_of (w1\<lparr> clock := t \<rparr>) (post_request (webhook_url self1) (card_payload c2)))]"
    using send_card_step(1)[OF assms(5)] .
  have u: "webhook_url self1 = webhook_url self" and r: "rate_limit self1 = rate_limit self"
    using s1 by simp_all
  have l2: "last_send_time self1 + rate_limit self \<le> ?p2"
    using enforce_rate_limit_clock[of "w1\<lparr> clock := t \<rparr>" self1] j1 r assms(4) by simp
  have l1: "?p1 \<le> last_send_time self1"
    using s1 assms(3) by simp
  from l1 l2 have p2: "?p1 + rate_limit self \<le> ?p2"
    by simp
  have p1: "last_send_time self + rate_limit self \<le> ?p1"
    using enforce_rate_limit_clock[OF assms(4)] .
  have "rate_limit (TeamsWebhookSender_init url None) = 1 / 4"
    by (simp add: TeamsWebhookSender_init_def)
  moreover have a1: "last_send_time self1 = ?p1 + latency_of w ?rq1"
    using s1 by simp
  moreover have a2: "last_send_time self1 = clock w1"
    using s1 w1 by simp
  moreover have "history w2 = history w @ [(?p1, ?rq1, Response resp),
                   (?p2, post_request (webhook_url self) (card_payload c2),
                    outcome_of (w1\<lparr> clock := t \<rparr>) (post_request (webhook_url self) (card_payload c2)))]"
    using h2 h1 u assms(2) by simp
  ultimately show ?thesis
    using p1 p2 l1 l2 by blast
qed

text \<open>
  A run of C9's theorem: two calls in a row, the second entered as soon as the first has
  returned. The first post leaves at 1000 and is answered at 1000.1; the second call
  sleeps and posts at 1000.35.
\<close>

theorem posts_paced_witness:
  "send_card example_sender PNone (world_with throttling_server)
     = (Inr True,
        example_sender\<lparr> last_send_time := 10001 / 10 \<rparr>,
        answered (post_request ''https://teams.example/hook'' (card_payload PNone))
          (world_with throttling_server))
 \<and> map fst (history (snd (snd
       (send_card (example_sender\<lparr> last_send_time := 10001 / 10 \<rparr>) PNone
          (answered (post_request ''https://teams.example/hook'' (card_payload PNone))
             (world_with throttling_server))))))
     = [1000, 20007 / 20]"
proof -
  let ?rq = "post_request ''https://teams.example/hook'' (card_payload PNone)"
  let ?w = "world_with throttling_server"
  let ?s1 = "example_sender\<lparr> last_send_time := 10001 / 10 \<rparr>"
  have u: "webhook_url example_sender = ''https://teams.example/hook''"
    by (simp add: example_sender_def TeamsWebhookSender_init_def)
  have e1: "send_card example_sender PNone ?w = (Inr True, ?s1, answered ?rq ?w)"
    by (simp add: send_card_eq Let_def u outcome_of_def latency_of_def world_with_def
          throttling_server_def json_response_def enforce_rate_limit_def sleep_def answered_def
          example_sender_def TeamsWebhookSender_init_def)
  have o: "outcome_of ?w (post_request (webhook_url example_sender) (card_payload PNone))
             = Response (json_response 200 (PInt 1))"
    by (simp add: outcome_of_def world_with_def throttling_server_def)
  have l: "0 \<le> latency_of ?w (post_request (webhook_url example_sender) (card_payload PNone))"
    by (simp add: latency_of_def world_with_def throttling_server_def)
  have j: "0 \<le> jitter ?w"
    by (simp add: world_with_def)
  obtain r2 s2 w2 where
    e2: "send_card ?s1 PNone ((answered ?rq ?w)\<lparr> clock := 10001 / 10 \<rparr>) = (r2, s2, w2)"
    by (cases "send_card ?s1 PNone ((answered ?rq ?w)\<lparr> clock := 10001 / 10 \<rparr>)") auto
  have c: "(answered ?rq ?w)\<lparr> clock := 10001 / 10 \<rparr> = answered ?rq ?w"
    by (simp add: answered_def latency_of_def world_with_def throttling_server_def)
  note pp = posts_paced[OF e1 o l j e2, of "[]", THEN conjunct1, unfolded u c]
  have v: "map fst (history (snd (snd (send_card ?s1 PNone (answered ?rq ?w))))) = [1000, 20007 / 20]"
    by (simp add: send_card_eq Let_def outcome_of_def latency_of_def world_with_def
          throttling_server_def json_response_def enforce_rate_limit_def sleep_def answered_def
          example_sender_def TeamsWebhookSender_init_def)
  from pp e1 v show ?thesis
    by simp
qed

text \<open>
  Against C9 as stated: the first call is entered at 1000 and returns at 1000.1, where a
  caller such as \<^verbatim>\<open>send_batch\<close> enters the next call at once: 0.1 seconds after the first
  entry, with a minimum delay of 0.25.
\<close>

theorem entries_closer_than_rate_limit:
  "fst (send_card example_sender PNone (world_with throttling_server)) = Inr True
 \<and> clock (world_with throttling_server) = 1000
 \<and> clock (snd (snd (send_card example_sender PNone (world_with throttling_server)))) = 10001 / 10
 \<and> rate_limit example_sender = 1 / 4
 \<and> clock (snd (snd (send_card example_sender PNone (world_with throttling_server))))
      - clock (world_with throttling_server) < rate_limit example_sender"
  by (simp add: send_card_eq Let_def outcome_of_def latency_of_def world_with_def
        throttling_server_def json_response_def enforce_rate_limit_def sleep_def answered_def
        example_sender_def TeamsWebhookSender_init_def)

section \<open>Properties of modules/fetch.py and modules/auth.py\<close>

lemma get_projects_eq:
  "get_projects self project_ids w =
     (let rq = projects_request self
      in (case outcome_of w rq of
            Raises e \<Rightarrow> except_return_empty e
          | Response resp \<Rightarrow>
              try_except_empty
                (case json_field resp ''projects'' of
                   Inl e \<Rightarrow> Inl e
                 | Inr projects \<Rightarrow>
                     (case filter_projects projects project_ids of
                        Inl e \<Rightarrow> Inl e
                      | Inr projects' \<Rightarrow> log_len_return projects')),
          answered rq w))"
  by (simp add: get_projects_def http_send_answered Let_def split: outcome.splits)











lemma json_field_ok:
  "\<not> (400 \<le> status_code resp \<and> status_code resp < 600) \<Longrightarrow> resp_json resp = Inr (PDict body) \<Longrightarrow>
     json_field resp key = Inr (dict_get body key (PList []))"
  by (auto simp: json_field_def raise_for_status_def py_get_def)




lemma keep_matching_dicts:
  "list_all is_dict ps \<Longrightarrow>
     keep_matching ps ids = Inr (filter (\<lambda>p. project_id_of p \<in> set (map PStr ids)) ps)"
  by (induction ps) (auto simp: is_dict_def py_get_def project_id_of_def split: pyval.splits)

lemma keep_matching_error: "keep_matching ps ids = Inl e \<Longrightarrow> e = AttributeError"
  by (induction ps arbitrary: e) (auto simp: py_get_def split: pyval.splits sum.splits)

lemma filter_projects_error: "filter_projects (PList xs) ids = Inl e \<Longrightarrow> e = AttributeError"
  by (auto simp: filter_projects_def py_iter_def split: option.splits if_splits sum.splits
        dest: keep_matching_error)

lemma filter_projects_list: "filter_projects (PList xs) ids = Inr v \<Longrightarrow> \<exists>ys. v = PList ys"
  by (auto simp: filter_projects_def py_iter_def split: option.splits if_splits sum.splits)

lemma fst_get_projects:
  assumes "outcome_of w (projects_request self) = Response resp"
      and "\<not> (400 \<le> status_code resp \<and> status_code resp < 600)"
      and "resp_json resp = Inr (PDict body)"
      and "map_of body ''projects'' = Some (PList xs)"
  shows "fst (get_projects self ids w) = filter_projects (PList xs) ids"
proof (cases "filter_projects (PList xs) ids")
  case (Inl e)
  then have "\<not> is_RequestException e"
    using filter_projects_error by fastforce
  with Inl assms show ?thesis
    by (simp add: get_projects_eq Let_def json_field_ok dict_get_def try_except_empty_def
          except_return_empty_def)
next
  case (Inr v)
  then obtain ys where "v = PList ys"
    using filter_projects_list by blast
  with Inr assms show ?thesis
    by (simp add: get_projects_eq Let_def json_field_ok dict_get_def try_except_empty_def
          log_len_return_def py_len_def)
qed

lemma outcome_of_constant [simp]:
  "outcome_of (world_with (constant_server latency out)) rq = out"
  by (simp add: outcome_of_def world_with_def constant_server_def)

lemma status_code_json_response [simp]: "status_code (json_response code body) = code"
  by (simp add: json_response_def)

lemma resp_json_json_response [simp]: "resp_json (json_response code body) = Inr body"
  by (simp add: json_response_def)

lemma example_fetch_fields:
  "fetch_base_url example_fetch = ''https://api.us.fieldwire.io/api''"
  "headers example_fetch = [(''Authorization'', ''Bearer None''), (''Content-Type'', ''application/json'')]"
  by (simp_all add: example_fetch_def FieldwireFetch_init_def world_with_def FieldwireAuth_init_def
        py_str_def Let_def)


lemma api_outcomes:
  "outcome_of (world_with api_server) (projects_request example_fetch)
     = Response (json_response 200 (PDict [(''projects'', PList example_projects)]))"
  "outcome_of (world_with api_server)
       (get_request example_fetch ''https://api.us.fieldwire.io/api/projects/p1/tasks'' ps)
     = Response (json_response 200 (PDict [(''tasks'', PList [PDict [(''id'', PStr ''t1'')]])]))"
  "outcome_of (world_with api_server)
       (get_request example_fetch
          ''https://api.us.fieldwire.io/api/projects/p1/tasks/t1/attachments'' ps)
     = Response (json_response 200 (PDict [(''attachments'', PList example_attachments)]))"
  by (simp_all add: outcome_of_def world_with_def api_server_def projects_request_def
        get_request_def example_fetch_fields)




text \<open>
  Claim C7. On a fetched list of project entries, a filter that is neither empty nor
  exactly \<^verbatim>\<open>["ALL"]\<close> keeps the entries whose \<^verbatim>\<open>id\<close> is one of the filter's strings, in the
  order of the fetched list; no filter, the empty filter and \<^verbatim>\<open>["ALL"]\<close> return the
  fetched list as it is.
\<close>

theorem get_projects_filter:
  assumes "outcome_of w (projects_request self) = Response resp"
      and "\<not> (400 \<le> status_code resp \<and> status_code resp < 600)"
      and "resp_json resp = Inr (PDict body)"
      and "map_of body ''projects'' = Some (PList ps)"
  shows "(ids \<noteq> [] \<and> ids \<noteq> [''ALL''] \<and> list_all is_dict ps \<longrightarrow>
            fst (get_projects self (Some ids) w)
              = Inr (PList (filter (\<lambda>p. project_id_of p \<in> set (map PStr ids)) ps)))
       \<and> fst (get_projects self None w) = Inr (PList ps)
       \<and> fst (get_projects self (Some []) w) = Inr (PList ps)
       \<and> fst (get_projects self (Some [''ALL'']) w) = Inr (PList ps)"
  using fst_get_projects[OF assms]
  by (simp add: filter_projects_def py_iter_def keep_matching_dicts)

text \<open>
  A run of C7's theorem: the filter names the third project before the first; the
  result has the first before the third.
\<close>

theorem get_projects_filter_witness:
  "fst (get_projects example_fetch (Some [''p3'', ''p1'']) (world_with api_server))
     = Inr (PList [PDict [(''id'', PStr ''p1''), (''name'', PStr ''Tower'')],
                   PDict [(''id'', PStr ''p3''), (''name'', PStr ''Tunnel'')]])
 \<and> fst (get_projects example_fetch (Some [''ALL'']) (world_with api_server))
     = Inr (PList example_projects)
 \<and> fst (get_projects example_fetch (Some []) (world_with api_server))
     = Inr (PList example_projects)
 \<and> fst (get_projects example_fetch None (world_with api_server))
     = Inr (PList example_projects)"
proof -
  have d: "list_all is_dict example_projects"
    by (simp add: example_projects_def is_dict_def)
  have f: "filter (\<lambda>p. project_id_of p \<in> set (map PStr [''p3'', ''p1''])) example_projects
             = [PDict [(''id'', PStr ''p1''), (''name'', PStr ''Tower'')],
                PDict [(''id'', PStr ''p3''), (''name'', PStr ''Tunnel'')]]"
    by (simp add: example_projects_def project_id_of_def dict_get_def)
  note t = get_projects_filter[OF api_outcomes(1), of "[(''projects'', PList example_projects)]"
             example_projects "[''p3'', ''p1'']"]
  from t d f show ?thesis
    by simp
qed











end
